theory Spec2Isabelle
  imports Main
begin

section \<open>Python strings\<close>

text \<open>
  A Python \<open>str\<close> is a sequence of Unicode code points, so a string is a list of code
  points here. \<open>lit\<close> turns a literal of the source into that form. Python's code
  points are below \<open>0x110000\<close>; nothing here depends on that bound.
\<close>

type_synonym codepoint = nat
type_synonym pystr = "codepoint list"

definition lit :: "string \<Rightarrow> pystr" where
  "lit s = map of_char s"

text \<open>
  The code points for which \<open>str.isspace\<close> holds: these are what \<open>str.strip()\<close>
  without an argument removes.
\<close>

definition whitespace :: "codepoint list" where
  "whitespace = [0x09, 0x0A, 0x0B, 0x0C, 0x0D, 0x1C, 0x1D, 0x1E, 0x1F, 0x20, 0x85, 0xA0,
     0x1680, 0x2000, 0x2001, 0x2002, 0x2003, 0x2004, 0x2005, 0x2006, 0x2007, 0x2008,
     0x2009, 0x200A, 0x2028, 0x2029, 0x202F, 0x205F, 0x3000]"

definition isspace :: "codepoint \<Rightarrow> bool" where
  "isspace c = (c \<in> set whitespace)"

text \<open>\<open>s.strip()\<close>: drop the whitespace at the front, then the whitespace at the back.\<close>

definition strip :: "pystr \<Rightarrow> pystr" where
  "strip s = rev (dropWhile isspace (rev (dropWhile isspace s)))"

text \<open>
  A text goes out as UTF-8, which has no encoding for a surrogate code point: encoding
  a string that holds one raises \<open>UnicodeEncodeError\<close>.
\<close>

definition encodable :: "pystr \<Rightarrow> bool" where
  "encodable s = list_all (\<lambda>c. \<not> (0xD800 \<le> c \<and> c \<le> 0xDFFF)) s"

section \<open>Exceptions\<close>

text \<open>
  The source catches by class: \<open>except RuntimeError\<close> at start-up and
  \<open>except Exception\<close> in the chat handler. An exception is therefore modelled by the
  part of the class hierarchy these clauses look at and by what \<open>str(e)\<close> does.
  \<open>BaseOnly\<close> stands for the classes that derive from \<open>BaseException\<close> but not
  from \<open>Exception\<close> (\<open>KeyboardInterrupt\<close>, \<open>SystemExit\<close>, \<open>GeneratorExit\<close>).
  \<open>PyExc c s\<close> is an exception of class \<open>c\<close> whose \<open>str\<close> is the text \<open>s\<close>;
  \<open>Unprintable c e\<close> is one of class \<open>c\<close> whose \<open>__str__\<close> raises \<open>e\<close>.
\<close>

datatype exc_class = RuntimeError | OtherException | BaseOnly

datatype pyexc =
  PyExc (exc_class: exc_class) pystr
| Unprintable (exc_class: exc_class) pyexc

text \<open>\<open>str(e)\<close>, which the f-strings of the source apply to an exception.\<close>

fun exc_str :: "pyexc \<Rightarrow> pyexc + pystr" where
  "exc_str (PyExc c s) = Inr s"
| "exc_str (Unprintable c e) = Inl e"

definition isinstance_Exception :: "pyexc \<Rightarrow> bool" where
  "isinstance_Exception e = (exc_class e \<noteq> BaseOnly)"

definition isinstance_RuntimeError :: "pyexc \<Rightarrow> bool" where
  "isinstance_RuntimeError e = (exc_class e = RuntimeError)"

text \<open>
  The error of encoding a text with a surrogate. Of its message only the reason is
  kept; nothing in the source reads it.
\<close>

definition UnicodeEncodeError :: pyexc where
  "UnicodeEncodeError = PyExc OtherException (lit ''surrogates not allowed'')"

text \<open>Reading a module global that is not bound.\<close>

definition NameError :: "string \<Rightarrow> pyexc" where
  "NameError name =
     PyExc OtherException (lit ''name '' @ [39] @ lit name @ [39] @ lit '' is not defined'')"

section \<open>Configuration loader\<close>

text \<open>
  The process environment is a map from names to values; \<open>os.getenv(name)\<close> is the
  lookup, \<open>None\<close> for an unset name.
\<close>

type_synonym environ = "pystr \<rightharpoonup> pystr"

definition require_env :: "environ \<Rightarrow> pystr \<Rightarrow> pyexc + pystr" where
  "require_env env name =
     (case env name of
        None \<Rightarrow>
          Inl (PyExc RuntimeError
                (lit ''Missing required environment variable: '' @ name @ lit ''. ''
                 @ lit ''Set it in your OS or in a .env file next to app.py.''))
      | Some val \<Rightarrow>
          if val = [] \<or> strip val = [] then
            Inl (PyExc RuntimeError
                  (lit ''Missing required environment variable: '' @ name @ lit ''. ''
                   @ lit ''Set it in your OS or in a .env file next to app.py.''))
          else Inr (strip val))"

section \<open>Python values and dictionaries\<close>

text \<open>
  The chain's result is a dictionary whose values are Python objects, and the handler
  applies \<open>str()\<close> to one of them. \<open>str()\<close> calls the \<open>__str__\<close> of the object's
  class: the identity on a \<open>str\<close>, a fixed text for \<open>None\<close> and the booleans, and
  for any other class whatever its \<open>__str__\<close> does, which is to return a text or to
  raise. \<open>PObj\<close> is an object of such a class, given by that outcome. The result
  itself is a dictionary, as the library's retrieval chain returns one.
\<close>

datatype pyval = PStr pystr | PNone | PBool bool | PObj "pyexc + pystr"

fun py_str :: "pyval \<Rightarrow> pyexc + pystr" where
  "py_str (PStr s) = Inr s"
| "py_str PNone = Inr (lit ''None'')"
| "py_str (PBool b) = Inr (if b then lit ''True'' else lit ''False'')"
| "py_str (PObj r) = r"

type_synonym pydict = "(pystr \<times> pyval) list"

text \<open>\<open>d.get(k, dflt)\<close>\<close>

definition dict_get :: "pydict \<Rightarrow> pystr \<Rightarrow> pyval \<Rightarrow> pyval" where
  "dict_get d k dflt = (case map_of d k of None \<Rightarrow> dflt | Some v \<Rightarrow> v)"

section \<open>Requests and responses\<close>

text \<open>
  \<open>request.form\<close> is a multi-dictionary of the decoded form fields; its \<open>get\<close> gives
  the first value of a key, or the default.
\<close>

type_synonym form = "(pystr \<times> pystr) list"

definition form_get :: "form \<Rightarrow> pystr \<Rightarrow> pystr \<Rightarrow> pystr" where
  "form_get f k dflt = (case map_of f k of None \<Rightarrow> dflt | Some v \<Rightarrow> v)"

text \<open>
  What a view hands back to the framework: the status (200 where the view returns a
  bare body), the body, and the media type where the source names one. \<open>Json\<close> is the
  object \<open>jsonify\<close> was given; \<open>ErrorPage\<close> is a page the framework writes itself.
  This is not yet what the client receives: the framework makes the HTTP response of
  it, see \<open>http_reply\<close> below.
\<close>

datatype payload = Text pystr | Json "(pystr \<times> pystr) list" | ErrorPage

record response =
  status :: nat
  body :: payload
  mimetype :: "pystr option"

text \<open>The HTTP response the client receives.\<close>

record http_response =
  http_status :: nat
  http_body :: payload
  http_mimetype :: pystr

text \<open>
  What a handler does besides returning: it calls the chain with an argument, and it
  prints the stack trace of an exception to the console.
\<close>

datatype event = Invoke pydict | PrintExc pyexc

text \<open>A handler returns a response or lets an exception out, and leaves a trace of events.\<close>

type_synonym outcome = "(pyexc + response) \<times> event list"

type_synonym invoke = "pydict \<Rightarrow> pyexc + pydict"

text \<open>
  What the framework makes of a view's outcome. A text body is encoded as UTF-8 and,
  where the view named no media type, served as \<open>text/html\<close>, the framework's
  default; a JSON body is served as \<open>application/json\<close>. When the view let out an
  instance of \<open>Exception\<close>, or returned a text that cannot be encoded, the client gets
  the framework's own page with status 500. An exception outside \<open>Exception\<close> is
  not the framework's to handle and leaves the application.
\<close>

definition internal_server_error :: http_response where
  "internal_server_error =
     \<lparr>http_status = 500, http_body = ErrorPage, http_mimetype = lit ''text/html''\<rparr>"

definition http_reply :: "outcome \<Rightarrow> (pyexc + http_response) \<times> event list" where
  "http_reply out =
     (case fst out of
        Inl e \<Rightarrow> if isinstance_Exception e then Inr internal_server_error else Inl e
      | Inr rv \<Rightarrow>
          (case body rv of
             Text s \<Rightarrow>
               if encodable s then
                 Inr \<lparr>http_status = status rv, http_body = Text s,
                      http_mimetype =
                        (case mimetype rv of None \<Rightarrow> lit ''text/html'' | Some m \<Rightarrow> m)\<rparr>
               else Inr internal_server_error
           | Json j \<Rightarrow>
               Inr \<lparr>http_status = status rv, http_body = Json j,
                    http_mimetype =
                      (case mimetype rv of None \<Rightarrow> lit ''application/json'' | Some m \<Rightarrow> m)\<rparr>
           | ErrorPage \<Rightarrow>
               Inr \<lparr>http_status = status rv, http_body = ErrorPage,
                    http_mimetype = lit ''text/html''\<rparr>),
      snd out)"

section \<open>The handlers\<close>

text \<open>
  The \<open>except Exception as e\<close> clause of \<open>chat\<close>, entered with the events so far. The
  clause prints the trace, then formats the exception with \<open>str(e)\<close> and builds a
  \<open>Response\<close>, which encodes its text: both steps run unprotected, so an exception of
  either leaves the handler.
\<close>

definition chat_except :: "pyexc \<Rightarrow> event list \<Rightarrow> outcome" where
  "chat_except e evs =
     (if isinstance_Exception e then
        (case exc_str e of
           Inl e' \<Rightarrow> (Inl e', evs @ [PrintExc e])
         | Inr s \<Rightarrow>
             if encodable (lit ''Error: '' @ s) then
               (Inr \<lparr>status = 500, body = Text (lit ''Error: '' @ s),
                     mimetype = Some (lit ''text/plain'')\<rparr>,
                evs @ [PrintExc e])
             else (Inl UnicodeEncodeError, evs @ [PrintExc e]))
      else (Inl e, evs))"

text \<open>
  The global \<open>rag_chain\<close> is bound only when start-up went through, so the handler
  gets its \<open>invoke\<close> as an option; reading the unbound name raises \<open>NameError\<close>
  inside the \<open>try\<close>.
\<close>

definition chat :: "invoke option \<Rightarrow> form \<Rightarrow> outcome" where
  "chat rag_chain frm =
     (let user_msg = strip (form_get frm (lit ''msg'') []) in
      if user_msg = [] then
        (Inr \<lparr>status = 400, body = Text (lit ''Please type a message.''), mimetype = None\<rparr>,
         [])
      else
        (case rag_chain of
           None \<Rightarrow> chat_except (NameError ''rag_chain'') []
         | Some call \<Rightarrow>
             (let arg = [(lit ''input'', PStr user_msg)] in
              case call arg of
                Inl e \<Rightarrow> chat_except e [Invoke arg]
              | Inr result \<Rightarrow>
                  (case py_str (dict_get result (lit ''answer'') (PStr [])) of
                     Inl e \<Rightarrow> chat_except e [Invoke arg]
                   | Inr s \<Rightarrow>
                       (Inr \<lparr>status = 200, body = Text (strip s), mimetype = None\<rparr>,
                        [Invoke arg])))))"

definition health :: outcome where
  "health = (Inr \<lparr>status = 200, body = Json [(lit ''status'', lit ''ok'')], mimetype = None\<rparr>, [])"

text \<open>
  \<open>index\<close> renders the template \<open>chat.html\<close>, a file of the repository that is not
  among the sources at hand: its rendered text is a parameter.
\<close>

definition index :: "pystr \<Rightarrow> outcome" where
  "index chat_html = (Inr \<lparr>status = 200, body = Text chat_html, mimetype = None\<rparr>, [])"

text \<open>
  The page that stands in for the root route when a required variable is missing. The
  view reads the module global \<open>e\<close> when it is called; its argument is the binding of
  that name at that time, \<open>None\<close> when the name is not bound.
\<close>

definition missing_keys :: "pyexc option \<Rightarrow> outcome" where
  "missing_keys e =
     (case e of
        None \<Rightarrow> (Inl (NameError ''e''), [])
      | Some exc \<Rightarrow>
          (case exc_str exc of
             Inl e' \<Rightarrow> (Inl e', [])
           | Inr s \<Rightarrow>
               (Inr \<lparr>status = 500, body = Text (lit ''<pre>'' @ s @ lit ''</pre>''),
                     mimetype = None\<rparr>, [])))"

text \<open>The chain calls the handler made, in order.\<close>

fun invocations :: "event list \<Rightarrow> pydict list" where
  "invocations [] = []"
| "invocations (Invoke d # evs) = d # invocations evs"
| "invocations (PrintExc e # evs) = invocations evs"

section \<open>Start-up\<close>

text \<open>
  The objects the libraries build are modelled by what they are built from: the vector
  store by its index name and embedding, the retriever by its store, search type and
  search arguments, the chain by its retriever, model name and prompt messages.
\<close>

record 'e vector_store =
  index_name :: pystr
  embedding :: 'e

record 'e retriever =
  vectorstore :: "'e vector_store"
  search_type :: pystr
  search_kwargs :: "(pystr \<times> nat) list"

record 'e rag =
  rag_retriever :: "'e retriever"
  rag_model :: pystr
  rag_prompt :: "(pystr \<times> pystr) list"

datatype http_method = GET | POST

datatype handler = Index | Chat | Health | MissingKeys

record route =
  rule :: pystr
  methods :: "http_method list"
  endpoint :: handler

text \<open>
  The process the module makes. \<open>routes\<close>, \<open>rag_chain\<close>, \<open>os_environ\<close> and \<open>var_e\<close>
  are the routes registered on \<open>app\<close> and the module globals as a request meets
  them; \<open>var_e\<close> is the name \<open>e\<close> of the clause \<open>except RuntimeError as e\<close>, which
  is bound inside the clause and unbound when the clause is left. \<open>app_run\<close> tells
  whether the module called \<open>app.run\<close>, \<open>raised\<close> is the exception that left the
  module, if any, and \<open>console\<close> is what the run of the module as a program has put
  on the console when it ends.
\<close>

record 'e process =
  routes :: "route list"
  rag_chain :: "'e rag option"
  os_environ :: environ
  var_e :: "pyexc option"
  app_run :: bool
  raised :: "pyexc option"
  console :: "event list"

text \<open>
  The module body. \<open>is_main\<close> is \<open>__name__ == "__main__"\<close>. \<open>download_embeddings\<close>
  and \<open>system_prompt\<close> come from modules of the repository that are not among the
  sources at hand, so they are parameters: the first is the outcome of the call, an
  embedding object or an exception. An exception of a library constructor would leave
  the module the same way.

  In the clause \<open>except RuntimeError as e\<close> the module registers \<open>missing_keys\<close> on the
  root route, calls \<open>app.run\<close> when it is the main program, and re-raises; the clause
  itself prints nothing. Requests are served by \<open>app.run\<close>, that is inside the clause,
  where \<open>e\<close> is bound. When the module is not the main program the clause is left at
  once and \<open>e\<close> is unbound from then on. \<open>app.run\<close> is taken to return; the
  exception that then leaves the main program is reported on the console by the
  interpreter, with its trace. An exception that leaves an imported module goes to the
  importing program instead.
\<close>

definition startup :: "environ \<Rightarrow> bool \<Rightarrow> pyexc + 'e \<Rightarrow> pystr \<Rightarrow> 'e process" where
  "startup env is_main download_embeddings system_prompt =
     (case (case require_env env (lit ''PINECONE_API_KEY'') of
              Inl e \<Rightarrow> Inl e
            | Inr pinecone_key \<Rightarrow>
                (case require_env env (lit ''OPENAI_API_KEY'') of
                   Inl e \<Rightarrow> Inl e
                 | Inr openai_key \<Rightarrow> Inr (pinecone_key, openai_key))) of
        Inl e \<Rightarrow>
          if isinstance_RuntimeError e then
            \<lparr>routes = [\<lparr>rule = lit ''/'', methods = [GET], endpoint = MissingKeys\<rparr>],
             rag_chain = None, os_environ = env,
             var_e = (if is_main then Some e else None),
             app_run = is_main, raised = Some e,
             console = (if is_main then [PrintExc e] else [])\<rparr>
          else
            \<lparr>routes = [], rag_chain = None, os_environ = env, var_e = None,
             app_run = False, raised = Some e,
             console = (if is_main then [PrintExc e] else [])\<rparr>
      | Inr (pinecone_key, openai_key) \<Rightarrow>
          (let env' = env(lit ''PINECONE_API_KEY'' \<mapsto> pinecone_key,
                          lit ''OPENAI_API_KEY'' \<mapsto> openai_key) in
           case download_embeddings of
             Inl e \<Rightarrow>
               \<lparr>routes = [], rag_chain = None, os_environ = env', var_e = None,
                app_run = False, raised = Some e,
                console = (if is_main then [PrintExc e] else [])\<rparr>
           | Inr emb \<Rightarrow>
               (let docsearch = \<lparr>index_name = lit ''medicalai-chatbot'', embedding = emb\<rparr>;
                    chatModel = lit ''gpt-4o-mini'';
                    retr = \<lparr>vectorstore = docsearch, search_type = lit ''similarity'',
                            search_kwargs = [(lit ''k'', 3)]\<rparr>;
                    prompt = [(lit ''system'', system_prompt), (lit ''human'', lit ''{input}'')]
                in
                \<lparr>routes = [\<lparr>rule = lit ''/'', methods = [GET], endpoint = Index\<rparr>,
                            \<lparr>rule = lit ''/get'', methods = [POST], endpoint = Chat\<rparr>,
                            \<lparr>rule = lit ''/health'', methods = [GET], endpoint = Health\<rparr>],
                 rag_chain = Some \<lparr>rag_retriever = retr, rag_model = chatModel,
                                    rag_prompt = prompt\<rparr>,
                 os_environ = env', var_e = None, app_run = is_main, raised = None,
                 console = []\<rparr>)))"

section \<open>Serving requests\<close>

record request =
  req_method :: http_method
  req_path :: pystr
  req_form :: form

text \<open>
  The framework's routing over the registered rules: no rule for the path is 404, a
  rule for the path that does not allow the method is 405, else the first rule that
  allows it.
\<close>

definition dispatch :: "route list \<Rightarrow> http_method \<Rightarrow> pystr \<Rightarrow> nat + handler" where
  "dispatch rs m p =
     (case filter (\<lambda>r. rule r = p) rs of
        [] \<Rightarrow> Inl 404
      | r # rs' \<Rightarrow>
          (case filter (\<lambda>r. m \<in> set (methods r)) (r # rs') of
             [] \<Rightarrow> Inl 405
           | r' # _ \<Rightarrow> Inr (endpoint r')))"

text \<open>
  The module globals the views read when they are called: \<open>rag_chain\<close>, as its
  \<open>invoke\<close>, and \<open>e\<close>.
\<close>

record view_globals =
  g_rag_chain :: "invoke option"
  g_e :: "pyexc option"

definition run_handler :: "handler \<Rightarrow> view_globals \<Rightarrow> pystr \<Rightarrow> form \<Rightarrow> outcome" where
  "run_handler h g chat_html frm =
     (case h of
        Index \<Rightarrow> index chat_html
      | Chat \<Rightarrow> chat (g_rag_chain g) frm
      | Health \<Rightarrow> health
      | MissingKeys \<Rightarrow> missing_keys (g_e g))"

text \<open>
  One request against the process. \<open>world\<close> is what the external services make of a
  call of the chain: it sees the chain as configured and the argument. No handler
  assigns a global, so the process comes back as it was.
\<close>

definition serve ::
  "'e process \<Rightarrow> ('e rag \<Rightarrow> invoke) \<Rightarrow> pystr \<Rightarrow> request \<Rightarrow> 'e process \<times> outcome" where
  "serve st world chat_html rq =
     (case dispatch (routes st) (req_method rq) (req_path rq) of
        Inl code \<Rightarrow> (st, (Inr \<lparr>status = code, body = ErrorPage, mimetype = None\<rparr>, []))
      | Inr h \<Rightarrow>
          (st, run_handler h
                 \<lparr>g_rag_chain = map_option world (rag_chain st), g_e = var_e st\<rparr>
                 chat_html (req_form rq)))"

fun serve_all ::
  "'e process \<Rightarrow> pystr \<Rightarrow> (('e rag \<Rightarrow> invoke) \<times> request) list \<Rightarrow> 'e process \<times> outcome list" where
  "serve_all st chat_html [] = (st, [])"
| "serve_all st chat_html ((world, rq) # rest) =
     (case serve st world chat_html rq of
        (st', out) \<Rightarrow>
          (case serve_all st' chat_html rest of (st'', outs) \<Rightarrow> (st'', out # outs)))"

section \<open>Facts about \<open>strip\<close>\<close>

lemma dropWhile_all_iff:
  "(\<forall>c \<in> set (dropWhile P s). P c) \<longleftrightarrow> (\<forall>c \<in> set s. P c)"
proof
  assume all: "\<forall>c \<in> set (dropWhile P s). P c"
  have "dropWhile P s = []"
  proof (rule ccontr)
    assume ne: "dropWhile P s \<noteq> []"
    then have "\<not> P (hd (dropWhile P s))"
      by (rule hd_dropWhile)
    moreover from ne have "hd (dropWhile P s) \<in> set (dropWhile P s)"
      by (rule hd_in_set)
    ultimately show False using all by blast
  qed
  then show "\<forall>c \<in> set s. P c"
    by (simp only: dropWhile_eq_Nil_conv)
next
  assume "\<forall>c \<in> set s. P c"
  then show "\<forall>c \<in> set (dropWhile P s). P c"
    by (meson set_dropWhileD)
qed

lemma strip_Nil_iff: "strip s = [] \<longleftrightarrow> list_all isspace s"
proof -
  have "strip s = [] \<longleftrightarrow> dropWhile isspace (rev (dropWhile isspace s)) = []"
    by (simp only: strip_def rev_is_Nil_conv)
  also have "\<dots> \<longleftrightarrow> (\<forall>c \<in> set (dropWhile isspace s). isspace c)"
    by (simp only: dropWhile_eq_Nil_conv set_rev)
  also have "\<dots> \<longleftrightarrow> (\<forall>c \<in> set s. isspace c)"
    by (rule dropWhile_all_iff)
  also have "\<dots> \<longleftrightarrow> list_all isspace s"
    by (simp only: list_all_iff)
  finally show ?thesis .
qed

lemma strip_decomp:
  "\<exists>l r. s = l @ strip s @ r \<and> list_all isspace l \<and> list_all isspace r"
proof -
  define d where "d = dropWhile isspace s"
  have s: "s = takeWhile isspace s @ d"
    by (simp add: d_def)
  have "d = rev (takeWhile isspace (rev d) @ dropWhile isspace (rev d))"
    by (simp only: takeWhile_dropWhile_id rev_rev_ident)
  also have "\<dots> = rev (dropWhile isspace (rev d)) @ rev (takeWhile isspace (rev d))"
    by (simp only: rev_append)
  finally have d: "d = strip s @ rev (takeWhile isspace (rev d))"
    by (simp only: strip_def d_def)
  have l: "list_all isspace (takeWhile isspace s)"
    by (simp add: list_all_iff) (meson set_takeWhileD)
  have r: "list_all isspace (rev (takeWhile isspace (rev d)))"
    by (simp add: list_all_iff) (meson set_takeWhileD)
  from s d have "s = takeWhile isspace s @ strip s @ rev (takeWhile isspace (rev d))"
    by simp
  with l r show ?thesis by blast
qed

lemma strip_last: "strip s \<noteq> [] \<Longrightarrow> \<not> isspace (last (strip s))"
proof -
  assume ne: "strip s \<noteq> []"
  then have ne': "dropWhile isspace (rev (dropWhile isspace s)) \<noteq> []"
    by (simp add: strip_def)
  then have "\<not> isspace (hd (dropWhile isspace (rev (dropWhile isspace s))))"
    by (rule hd_dropWhile)
  with ne' show ?thesis
    by (simp add: strip_def last_rev)
qed

lemma strip_hd: "strip s \<noteq> [] \<Longrightarrow> \<not> isspace (hd (strip s))"
proof -
  assume ne: "strip s \<noteq> []"
  define d where "d = dropWhile isspace s"
  from ne have ne': "dropWhile isspace (rev d) \<noteq> []"
    by (simp add: strip_def d_def)
  then have dne: "d \<noteq> []" by auto
  have "rev d = takeWhile isspace (rev d) @ dropWhile isspace (rev d)"
    by simp
  with ne' have "last (rev d) = last (dropWhile isspace (rev d))"
    by (metis last_appendR)
  with dne have "hd d = last (dropWhile isspace (rev d))"
    by (simp add: last_rev)
  with ne' have "hd (strip s) = hd d"
    by (simp add: strip_def d_def hd_rev)
  moreover from dne have "\<not> isspace (hd d)"
    unfolding d_def by (rule hd_dropWhile)
  ultimately show ?thesis by simp
qed

lemma dropWhile_pad:
  "list_all P l \<Longrightarrow> dropWhile P (l @ s) = dropWhile P s"
  by (induction l) simp_all

lemma strip_pad:
  assumes "list_all isspace l" and "list_all isspace r"
  shows "strip (l @ s @ r) = strip s"
proof (cases "list_all isspace s")
  case True
  with assms have "list_all isspace (l @ s @ r)" by simp
  then have "strip (l @ s @ r) = []" by (simp only: strip_Nil_iff)
  moreover from True have "strip s = []" by (simp only: strip_Nil_iff)
  ultimately show ?thesis by simp
next
  case False
  then have sne: "dropWhile isspace s \<noteq> []"
    by (simp add: dropWhile_eq_Nil_conv list_all_iff)
  from assms(1) have "dropWhile isspace (l @ s @ r) = dropWhile isspace (s @ r)"
    by (rule dropWhile_pad)
  also from sne have "\<dots> = dropWhile isspace s @ r"
    by (metis dropWhile_append1 dropWhile_eq_Nil_conv)
  finally have front: "dropWhile isspace (l @ s @ r) = dropWhile isspace s @ r" .
  from assms(2) have "list_all isspace (rev r)" by (simp add: list_all_iff)
  then have "dropWhile isspace (rev r @ rev (dropWhile isspace s))
               = dropWhile isspace (rev (dropWhile isspace s))"
    by (rule dropWhile_pad)
  with front show ?thesis by (simp add: strip_def)
qed

section \<open>Facts about encoding\<close>

lemma encodable_append: "encodable (a @ b) \<longleftrightarrow> encodable a \<and> encodable b"
  by (simp add: encodable_def)

lemma isspace_no_surrogate: "isspace c \<Longrightarrow> \<not> (0xD800 \<le> c \<and> c \<le> 0xDFFF)"
  by (auto simp add: isspace_def whitespace_def)

lemma encodable_whitespace: "list_all isspace l \<Longrightarrow> encodable l"
  unfolding encodable_def list_all_iff using isspace_no_surrogate by blast

lemma encodable_strip: "encodable (strip t) \<longleftrightarrow> encodable t"
proof -
  obtain l r where t: "t = l @ strip t @ r"
    and l: "list_all isspace l" and r: "list_all isspace r"
    using strip_decomp [of t] by blast
  have "encodable t \<longleftrightarrow> encodable (l @ strip t @ r)"
    using t by simp
  also have "\<dots> \<longleftrightarrow> encodable (strip t)"
    using encodable_whitespace [OF l] encodable_whitespace [OF r]
    by (simp add: encodable_append)
  finally show ?thesis by simp
qed


lemma http_reply_text:
  assumes "encodable s"
  shows "http_reply (Inr \<lparr>status = n, body = Text s, mimetype = m\<rparr>, evs) =
           (Inr \<lparr>http_status = n, http_body = Text s,
                  http_mimetype = (case m of None \<Rightarrow> lit ''text/html'' | Some x \<Rightarrow> x)\<rparr>,
            evs)"
  using assms by (simp add: http_reply_def)

section \<open>Facts about the chat handler\<close>

lemmas eval_defs = chat_def chat_except_def form_get_def dict_get_def strip_def lit_def
  isspace_def whitespace_def isinstance_Exception_def Let_def encodable_def http_reply_def
  internal_server_error_def UnicodeEncodeError_def NameError_def

lemma form_get_blank:
  assumes "map_of frm k = None \<or> (\<exists>v. map_of frm k = Some v \<and> list_all isspace v)"
  shows "strip (form_get frm k []) = []"
  using assms
proof
  assume "map_of frm k = None"
  then show ?thesis by (simp add: form_get_def strip_def)
next
  assume "\<exists>v. map_of frm k = Some v \<and> list_all isspace v"
  then obtain v where v: "map_of frm k = Some v" and sp: "list_all isspace v" by blast
  from sp have "strip v = []" by (simp only: strip_Nil_iff)
  with v show ?thesis by (simp add: form_get_def)
qed

lemma form_get_Some: "map_of frm k = Some m \<Longrightarrow> form_get frm k dflt = m"
  by (simp add: form_get_def)

lemma dict_get_Some: "map_of d k = Some v \<Longrightarrow> dict_get d k dflt = v"
  by (simp add: dict_get_def)


lemma chat_Some:
  assumes "strip (form_get frm (lit ''msg'') []) = m" and "m \<noteq> []"
  shows "chat (Some call) frm =
     (case call [(lit ''input'', PStr m)] of
        Inl e \<Rightarrow> chat_except e [Invoke [(lit ''input'', PStr m)]]
      | Inr result \<Rightarrow>
          (case py_str (dict_get result (lit ''answer'') (PStr [])) of
             Inl e \<Rightarrow> chat_except e [Invoke [(lit ''input'', PStr m)]]
           | Inr s \<Rightarrow>
               (Inr \<lparr>status = 200, body = Text (strip s), mimetype = None\<rparr>,
                [Invoke [(lit ''input'', PStr m)]])))"
  using assms by (simp add: chat_def Let_def)

lemma chat_Some_returns:
  assumes nonblank: "strip (form_get frm (lit ''msg'') []) \<noteq> []"
    and returns: "call [(lit ''input'', PStr (strip (form_get frm (lit ''msg'') [])))] = Inr result"
  shows "chat (Some call) frm =
      (case py_str (dict_get result (lit ''answer'') (PStr [])) of
         Inl e \<Rightarrow> chat_except e
                    [Invoke [(lit ''input'', PStr (strip (form_get frm (lit ''msg'') [])))]]
       | Inr s \<Rightarrow>
           (Inr \<lparr>status = 200, body = Text (strip s), mimetype = None\<rparr>,
            [Invoke [(lit ''input'', PStr (strip (form_get frm (lit ''msg'') [])))]]))"
  using returns by (simp add: chat_Some [OF refl nonblank])





lemma invocations_append:
  "invocations (xs @ ys) = invocations xs @ invocations ys"
  by (induction xs rule: invocations.induct) simp_all

lemma invocations_chat_except:
  "invocations (snd (chat_except e evs)) = invocations evs"
  by (simp add: chat_except_def invocations_append split: sum.splits)

lemma invocations_chat_Some:
  assumes "strip (form_get frm (lit ''msg'') []) = m" and "m \<noteq> []"
  shows "invocations (snd (chat (Some call) frm)) = [[(lit ''input'', PStr m)]]"
  by (simp add: chat_Some [OF assms] invocations_chat_except split: sum.splits)

section \<open>Facts about start-up and serving\<close>


lemma require_env_present:
  assumes "env name = Some v" and "\<not> list_all isspace v"
  shows "require_env env name = Inr (strip v)"
proof -
  from assms(2) have ne: "strip v \<noteq> []" by (simp only: strip_Nil_iff not_False_eq_True)
  then have "v \<noteq> []" by (auto simp: strip_def)
  with assms(1) ne show ?thesis by (simp add: require_env_def)
qed

lemma startup_configured:
  assumes "env (lit ''PINECONE_API_KEY'') = Some p" and "\<not> list_all isspace p"
    and "env (lit ''OPENAI_API_KEY'') = Some k" and "\<not> list_all isspace k"
  shows "startup env is_main (Inr emb) system_prompt =
     \<lparr>routes = [\<lparr>rule = lit ''/'', methods = [GET], endpoint = Index\<rparr>,
                \<lparr>rule = lit ''/get'', methods = [POST], endpoint = Chat\<rparr>,
                \<lparr>rule = lit ''/health'', methods = [GET], endpoint = Health\<rparr>],
      rag_chain = Some \<lparr>rag_retriever =
                          \<lparr>vectorstore = \<lparr>index_name = lit ''medicalai-chatbot'',
                                          embedding = emb\<rparr>,
                           search_type = lit ''similarity'',
                           search_kwargs = [(lit ''k'', 3)]\<rparr>,
                        rag_model = lit ''gpt-4o-mini'',
                        rag_prompt = [(lit ''system'', system_prompt),
                                      (lit ''human'', lit ''{input}'')]\<rparr>,
      os_environ = env(lit ''PINECONE_API_KEY'' \<mapsto> strip p,
                       lit ''OPENAI_API_KEY'' \<mapsto> strip k),
      var_e = None, app_run = is_main, raised = None, console = []\<rparr>"
  by (simp add: startup_def Let_def require_env_present [where env = env, OF assms(1,2)]
      require_env_present [where env = env, OF assms(3,4)])


lemma fst_serve: "fst (serve st world chat_html rq) = st"
  by (simp add: serve_def split: sum.splits)

lemma fst_serve_all: "fst (serve_all st chat_html reqs) = st"
proof (induction reqs arbitrary: st)
  case Nil
  show ?case by simp
next
  case (Cons a reqs)
  obtain world rq where a: "a = (world, rq)" by (cases a)
  obtain st' out where s: "serve st world chat_html rq = (st', out)"
    by (cases "serve st world chat_html rq")
  then have "st' = st" using fst_serve [of st world chat_html rq] by simp
  with Cons.IH [of st] a s show ?case
    by (auto split: prod.splits)
qed

lemma dispatch_health:
  "dispatch [\<lparr>rule = lit ''/'', methods = [GET], endpoint = Index\<rparr>,
             \<lparr>rule = lit ''/get'', methods = [POST], endpoint = Chat\<rparr>,
             \<lparr>rule = lit ''/health'', methods = [GET], endpoint = Health\<rparr>]
     GET (lit ''/health'') = Inr Health"
  by (simp add: dispatch_def lit_def)

section \<open>The configuration loader's contract\<close>

text \<open>
  Claim C4. For every environment and every variable name: when the variable is unset,
  empty, or made of whitespace only, \<open>require_env\<close> raises a \<open>RuntimeError\<close> whose
  message spells out that name; otherwise it returns the value without its leading and
  trailing whitespace, that is, the value is the result with whitespace put in front
  and behind, and the result neither starts nor ends with whitespace.
\<close>

theorem require_env_contract:
  "((env name = None \<or> (\<exists>v. env name = Some v \<and> list_all isspace v)) \<longrightarrow>
      require_env env name =
        Inl (PyExc RuntimeError
              (lit ''Missing required environment variable: '' @ name
               @ lit ''. Set it in your OS or in a .env file next to app.py.'')))
   \<and> (\<forall>v. env name = Some v \<and> \<not> list_all isspace v \<longrightarrow>
        require_env env name = Inr (strip v)
        \<and> (\<exists>l r. v = l @ strip v @ r \<and> list_all isspace l \<and> list_all isspace r)
        \<and> strip v \<noteq> []
        \<and> \<not> isspace (hd (strip v)) \<and> \<not> isspace (last (strip v)))"
proof (intro conjI impI allI)
  assume "env name = None \<or> (\<exists>v. env name = Some v \<and> list_all isspace v)"
  then show "require_env env name =
        Inl (PyExc RuntimeError
              (lit ''Missing required environment variable: '' @ name
               @ lit ''. Set it in your OS or in a .env file next to app.py.''))"
  proof
    assume "env name = None"
    then show ?thesis by (simp add: require_env_def lit_def)
  next
    assume "\<exists>v. env name = Some v \<and> list_all isspace v"
    then obtain v where v: "env name = Some v" and "list_all isspace v" by blast
    then have "strip v = []" by (simp only: strip_Nil_iff)
    with v show ?thesis by (simp add: require_env_def lit_def)
  qed
next
  fix v
  assume h: "env name = Some v \<and> \<not> list_all isspace v"
  then have ne: "strip v \<noteq> []" by (simp only: strip_Nil_iff not_False_eq_True)
  then have vne: "v \<noteq> []" by (auto simp: strip_def)
  from h ne vne show "require_env env name = Inr (strip v)"
    by (simp add: require_env_def)
  show "\<exists>l r. v = l @ strip v @ r \<and> list_all isspace l \<and> list_all isspace r"
    by (rule strip_decomp)
  from ne show "strip v \<noteq> []" .
  from ne show "\<not> isspace (hd (strip v))" by (rule strip_hd)
  from ne show "\<not> isspace (last (strip v))" by (rule strip_last)
qed

theorem require_env_contract_witness:
  "require_env Map.empty (lit ''PINECONE_API_KEY'')
     = Inl (PyExc RuntimeError
             (lit ''Missing required environment variable: PINECONE_API_KEY''
              @ lit ''. Set it in your OS or in a .env file next to app.py.''))
   \<and> require_env [lit ''OPENAI_API_KEY'' \<mapsto> [0x20, 0x09]] (lit ''OPENAI_API_KEY'')
     = Inl (PyExc RuntimeError
             (lit ''Missing required environment variable: OPENAI_API_KEY''
              @ lit ''. Set it in your OS or in a .env file next to app.py.''))
   \<and> require_env [lit ''OPENAI_API_KEY'' \<mapsto> lit '' sk-test  ''] (lit ''OPENAI_API_KEY'')
     = Inr (lit ''sk-test'')"
proof -
  let ?unset = "Map.empty :: environ"
  let ?blank = "[lit ''OPENAI_API_KEY'' \<mapsto> [0x20, 0x09]] :: environ"
  let ?given = "[lit ''OPENAI_API_KEY'' \<mapsto> lit '' sk-test  ''] :: environ"
  have unset: "?unset (lit ''PINECONE_API_KEY'') = None
      \<or> (\<exists>v. ?unset (lit ''PINECONE_API_KEY'') = Some v \<and> list_all isspace v)"
    by simp
  have blank: "?blank (lit ''OPENAI_API_KEY'') = None
      \<or> (\<exists>v. ?blank (lit ''OPENAI_API_KEY'') = Some v \<and> list_all isspace v)"
    by (simp add: isspace_def whitespace_def)
  have given: "?given (lit ''OPENAI_API_KEY'') = Some (lit '' sk-test  '')
      \<and> \<not> list_all isspace (lit '' sk-test  '')"
    by (simp add: lit_def isspace_def whitespace_def)
  have trimmed: "strip (lit '' sk-test  '') = lit ''sk-test''"
    by (simp add: eval_defs)
  note c = require_env_contract [where env = ?unset and name = "lit ''PINECONE_API_KEY''"]
    require_env_contract [where env = ?blank and name = "lit ''OPENAI_API_KEY''"]
    require_env_contract [where env = ?given and name = "lit ''OPENAI_API_KEY''"]
  from c(1) unset have "require_env ?unset (lit ''PINECONE_API_KEY'')
     = Inl (PyExc RuntimeError
             (lit ''Missing required environment variable: '' @ lit ''PINECONE_API_KEY''
              @ lit ''. Set it in your OS or in a .env file next to app.py.''))"
    by blast
  moreover from c(2) blank have "require_env ?blank (lit ''OPENAI_API_KEY'')
     = Inl (PyExc RuntimeError
             (lit ''Missing required environment variable: '' @ lit ''OPENAI_API_KEY''
              @ lit ''. Set it in your OS or in a .env file next to app.py.''))"
    by blast
  moreover from c(3) given have "require_env ?given (lit ''OPENAI_API_KEY'')
     = Inr (strip (lit '' sk-test  ''))"
    by blast
  ultimately show ?thesis using trimmed by (simp add: lit_def)
qed

section \<open>The chat handler\<close>




text \<open>
  Claim C2. Whenever the \<open>msg\<close> field is absent, empty or made of whitespace only, the
  handler returns status 400 and the body \<open>Please type a message.\<close>, and its trace
  has no event: the chain, whatever it is, was not called. The client receives that
  status and body.
\<close>

theorem chat_blank_message:
  assumes "map_of frm (lit ''msg'') = None
           \<or> (\<exists>v. map_of frm (lit ''msg'') = Some v \<and> list_all isspace v)"
  shows "chat chain frm =
           (Inr \<lparr>status = 400, body = Text (lit ''Please type a message.''), mimetype = None\<rparr>,
            [])
       \<and> http_reply (chat chain frm) =
           (Inr \<lparr>http_status = 400, http_body = Text (lit ''Please type a message.''),
                  http_mimetype = lit ''text/html''\<rparr>,
            [])"
proof -
  have view: "chat chain frm =
           (Inr \<lparr>status = 400, body = Text (lit ''Please type a message.''), mimetype = None\<rparr>,
            [])"
    using form_get_blank [OF assms] by (simp add: chat_def)
  have "encodable (lit ''Please type a message.'')"
    by (simp add: encodable_def lit_def)
  then show ?thesis
    unfolding view by (simp add: http_reply_text)
qed

theorem chat_blank_message_witness:
  "chat (Some (\<lambda>arg. Inr [(lit ''answer'', PStr (lit ''never asked''))])) []
     = (Inr \<lparr>status = 400, body = Text (lit ''Please type a message.''), mimetype = None\<rparr>, [])
   \<and> chat (Some (\<lambda>arg. Inr [(lit ''answer'', PStr (lit ''never asked''))]))
        [(lit ''msg'', [])]
     = (Inr \<lparr>status = 400, body = Text (lit ''Please type a message.''), mimetype = None\<rparr>, [])
   \<and> chat (Some (\<lambda>arg. Inr [(lit ''answer'', PStr (lit ''never asked''))]))
        [(lit ''msg'', [0x20, 0x09, 0x0A, 0xA0, 0x3000])]
     = (Inr \<lparr>status = 400, body = Text (lit ''Please type a message.''), mimetype = None\<rparr>, [])
   \<and> http_reply (chat (Some (\<lambda>arg. Inr [(lit ''answer'', PStr (lit ''never asked''))]))
        [(lit ''msg'', [0x20, 0x09, 0x0A, 0xA0, 0x3000])])
     = (Inr \<lparr>http_status = 400, http_body = Text (lit ''Please type a message.''),
              http_mimetype = lit ''text/html''\<rparr>, [])"
proof -
  have absent: "map_of ([] :: form) (lit ''msg'') = None
      \<or> (\<exists>v. map_of ([] :: form) (lit ''msg'') = Some v \<and> list_all isspace v)"
    by simp
  have empty: "map_of [(lit ''msg'', [])] (lit ''msg'') = None
      \<or> (\<exists>v. map_of [(lit ''msg'', [])] (lit ''msg'') = Some v \<and> list_all isspace v)"
    by simp
  have spaces: "map_of [(lit ''msg'', [0x20, 0x09, 0x0A, 0xA0, 0x3000])] (lit ''msg'') = None
      \<or> (\<exists>v. map_of [(lit ''msg'', [0x20, 0x09, 0x0A, 0xA0, 0x3000])] (lit ''msg'') = Some v
              \<and> list_all isspace v)"
    by (simp add: isspace_def whitespace_def)
  from chat_blank_message [OF absent] chat_blank_message [OF empty]
    chat_blank_message [OF spaces]
  show ?thesis by blast
qed




text \<open>
  Claim C7 says that the body of a successful answer is never empty. The handler puts no
  condition on the answer: a chain that answers with whitespace gets status 200 and
  the empty body.
\<close>

theorem chat_blank_answer_gives_empty_body:
  "fst (chat (Some (\<lambda>arg. Inr [(lit ''answer'', PStr (lit ''  ''))]))
          [(lit ''msg'', lit ''What is a migraine?'')])
     = Inr \<lparr>status = 200, body = Text [], mimetype = None\<rparr>
   \<and> fst (http_reply (chat (Some (\<lambda>arg. Inr [(lit ''answer'', PStr (lit ''  ''))]))
          [(lit ''msg'', lit ''What is a migraine?'')]))
     = Inr \<lparr>http_status = 200, http_body = Text [], http_mimetype = lit ''text/html''\<rparr>"
  by (simp add: eval_defs)

text \<open>
  Claim C7, amended. For a message that is not blank and a call of the chain that
  returns a result whose answer is a string that can be encoded, the client receives
  status 200 and the trimmed answer as body, served as \<open>text/html\<close> for want of a media
  type named by the view; that body is non-empty exactly when the answer has a
  character that is not whitespace.
\<close>

theorem chat_body_nonempty_iff:
  assumes nonblank: "strip (form_get frm (lit ''msg'') []) \<noteq> []"
    and returns: "call [(lit ''input'', PStr (strip (form_get frm (lit ''msg'') [])))] = Inr result"
    and answer: "map_of result (lit ''answer'') = Some (PStr s)"
    and enc: "encodable s"
  shows "http_reply (chat (Some call) frm)
           = (Inr \<lparr>http_status = 200, http_body = Text (strip s),
                    http_mimetype = lit ''text/html''\<rparr>,
              [Invoke [(lit ''input'', PStr (strip (form_get frm (lit ''msg'') [])))]])
       \<and> (strip s \<noteq> [] \<longleftrightarrow> \<not> list_all isspace s)"
proof -
  have view: "chat (Some call) frm =
      (Inr \<lparr>status = 200, body = Text (strip s), mimetype = None\<rparr>,
       [Invoke [(lit ''input'', PStr (strip (form_get frm (lit ''msg'') [])))]])"
    by (simp add: chat_Some_returns [where call = call, OF nonblank returns]
        dict_get_Some [OF answer])
  from enc have "encodable (strip s)" by (simp add: encodable_strip)
  then show ?thesis
    unfolding view by (simp add: http_reply_text strip_Nil_iff)
qed

theorem chat_body_nonempty_iff_witness:
  "http_reply (chat (Some (\<lambda>arg. Inr [(lit ''answer'', PStr (lit '' A headache disorder. ''))]))
          [(lit ''msg'', lit ''What is a migraine?'')])
     = (Inr \<lparr>http_status = 200, http_body = Text (lit ''A headache disorder.''),
              http_mimetype = lit ''text/html''\<rparr>,
        [Invoke [(lit ''input'', PStr (lit ''What is a migraine?''))]])
   \<and> lit ''A headache disorder.'' \<noteq> []"
proof -
  let ?frm = "[(lit ''msg'', lit ''What is a migraine?'')]"
  let ?res = "[(lit ''answer'', PStr (lit '' A headache disorder. ''))]"
  have m: "strip (form_get ?frm (lit ''msg'') []) = lit ''What is a migraine?''"
    by (simp add: eval_defs)
  then have nb: "strip (form_get ?frm (lit ''msg'') []) \<noteq> []"
    by (simp add: lit_def)
  have a: "map_of ?res (lit ''answer'') = Some (PStr (lit '' A headache disorder. ''))"
    by simp
  have enc: "encodable (lit '' A headache disorder. '')"
    by (simp add: encodable_def lit_def)
  have s: "strip (lit '' A headache disorder. '') = lit ''A headache disorder.''"
    by (simp add: eval_defs)
  have ns: "\<not> list_all isspace (lit '' A headache disorder. '')"
    by (simp add: lit_def isspace_def whitespace_def)
  from chat_body_nonempty_iff [where call = "\<lambda>arg. Inr ?res" and frm = ?frm, OF nb refl a enc]
    ns
  show ?thesis unfolding m s by simp
qed

text \<open>
  Claim C9. For a message \<open>m\<close> that is not blank, the one thing the handler asks of the
  chain is its answer to the dictionary whose \<open>input\<close> is \<open>m\<close> trimmed: two chains
  that agree on that argument get the same outcome; a chain that answers only that
  argument, and lets an exception out on any other, is answered; the handler's trace
  has that one call; the trimmed message neither starts nor ends with whitespace; and
  a request whose message differs from \<open>m\<close> only in the whitespace around it has, with
  the same chain, the same outcome.
\<close>

theorem chat_input_is_trimmed_message:
  assumes msg: "map_of frm (lit ''msg'') = Some m"
    and nonblank: "\<not> list_all isspace m"
  shows "(\<forall>call'. call' [(lit ''input'', PStr (strip m))] = call [(lit ''input'', PStr (strip m))]
            \<longrightarrow> chat (Some call') frm = chat (Some call) frm)
       \<and> (\<forall>x. chat (Some (\<lambda>arg. if arg = [(lit ''input'', PStr (strip m))]
                                   then Inr [(lit ''answer'', PStr x)]
                                   else Inl (PyExc BaseOnly []))) frm
               = (Inr \<lparr>status = 200, body = Text (strip x), mimetype = None\<rparr>,
                  [Invoke [(lit ''input'', PStr (strip m))]]))
       \<and> invocations (snd (chat (Some call) frm)) = [[(lit ''input'', PStr (strip m))]]
       \<and> strip m \<noteq> [] \<and> \<not> isspace (hd (strip m)) \<and> \<not> isspace (last (strip m))
       \<and> (\<forall>c l r l' r' frm'.
             m = l @ c @ r \<and> map_of frm' (lit ''msg'') = Some (l' @ c @ r')
             \<and> list_all isspace l \<and> list_all isspace r
             \<and> list_all isspace l' \<and> list_all isspace r' \<longrightarrow>
             chat (Some call) frm' = chat (Some call) frm)"
proof (intro conjI allI impI)
  from nonblank have ne: "strip m \<noteq> []"
    by (simp only: strip_Nil_iff not_False_eq_True)
  from msg have fg: "strip (form_get frm (lit ''msg'') []) = strip m"
    by (simp add: form_get_Some)
  note unfolded = chat_Some [OF fg ne]
  {
    fix call'
    assume "call' [(lit ''input'', PStr (strip m))] = call [(lit ''input'', PStr (strip m))]"
    then show "chat (Some call') frm = chat (Some call) frm"
      by (simp add: unfolded)
  }
  {
    fix x
    show "chat (Some (\<lambda>arg. if arg = [(lit ''input'', PStr (strip m))]
                                   then Inr [(lit ''answer'', PStr x)]
                                   else Inl (PyExc BaseOnly []))) frm
               = (Inr \<lparr>status = 200, body = Text (strip x), mimetype = None\<rparr>,
                  [Invoke [(lit ''input'', PStr (strip m))]])"
      by (simp add: unfolded dict_get_def)
  }
  from fg ne show "invocations (snd (chat (Some call) frm)) = [[(lit ''input'', PStr (strip m))]]"
    by (rule invocations_chat_Some)
  from ne show "strip m \<noteq> []" .
  from ne show "\<not> isspace (hd (strip m))" by (rule strip_hd)
  from ne show "\<not> isspace (last (strip m))" by (rule strip_last)
  fix c l r l' r' :: pystr and frm' :: form
  assume h: "m = l @ c @ r \<and> map_of frm' (lit ''msg'') = Some (l' @ c @ r')
             \<and> list_all isspace l \<and> list_all isspace r
             \<and> list_all isspace l' \<and> list_all isspace r'"
  then have "strip m = strip c" by (simp add: strip_pad)
  moreover from h have "strip (l' @ c @ r') = strip c" by (simp add: strip_pad)
  ultimately have eq: "strip (l' @ c @ r') = strip m" by simp
  from h have "strip (form_get frm' (lit ''msg'') []) = strip (l' @ c @ r')"
    by (simp add: form_get_Some)
  with eq have fg': "strip (form_get frm' (lit ''msg'') []) = strip m" by simp
  show "chat (Some call) frm' = chat (Some call) frm"
    by (simp add: unfolded chat_Some [OF fg' ne])
qed

theorem chat_input_is_trimmed_message_witness:
  "chat (Some (\<lambda>arg. if arg = [(lit ''input'', PStr (lit ''What is a migraine?''))]
                       then Inr [(lit ''answer'', PStr (lit ''seen''))]
                       else Inl (PyExc BaseOnly [])))
        [(lit ''msg'', lit ''  What is a migraine? '')]
     = (Inr \<lparr>status = 200, body = Text (lit ''seen''), mimetype = None\<rparr>,
        [Invoke [(lit ''input'', PStr (lit ''What is a migraine?''))]])
   \<and> chat (Some (\<lambda>arg. Inr [(lit ''answer'', dict_get arg (lit ''input'') PNone)]))
        [(lit ''msg'', [0x09] @ lit ''What is a migraine?'' @ [0x0A])]
     = chat (Some (\<lambda>arg. Inr [(lit ''answer'', dict_get arg (lit ''input'') PNone)]))
        [(lit ''msg'', lit ''  What is a migraine? '')]"
proof -
  let ?m = "lit ''  What is a migraine? ''"
  let ?frm = "[(lit ''msg'', ?m)]"
  let ?frm' = "[(lit ''msg'', [0x09] @ lit ''What is a migraine?'' @ [0x0A])]"
  let ?echo = "\<lambda>arg :: pydict. Inr [(lit ''answer'', dict_get arg (lit ''input'') PNone)]
                 :: pyexc + pydict"
  have msg: "map_of ?frm (lit ''msg'') = Some ?m" by simp
  have nb: "\<not> list_all isspace ?m"
    by (simp add: lit_def isspace_def whitespace_def)
  have s: "strip ?m = lit ''What is a migraine?''"
    by (simp add: eval_defs)
  have sx: "strip (lit ''seen'') = lit ''seen''"
    by (simp add: eval_defs)
  note t = chat_input_is_trimmed_message [where call = ?echo and frm = ?frm, OF msg nb]
  have pads: "?m = lit ''  '' @ lit ''What is a migraine?'' @ lit '' ''
      \<and> map_of ?frm' (lit ''msg'') = Some ([0x09] @ lit ''What is a migraine?'' @ [0x0A])
      \<and> list_all isspace (lit ''  '') \<and> list_all isspace (lit '' '')
      \<and> list_all isspace [0x09] \<and> list_all isspace [0x0A]"
    by (simp add: lit_def isspace_def whitespace_def)
  from t [THEN conjunct2, THEN conjunct1, THEN spec, of "lit ''seen''"]
  have first: "chat (Some (\<lambda>arg. if arg = [(lit ''input'', PStr (lit ''What is a migraine?''))]
                       then Inr [(lit ''answer'', PStr (lit ''seen''))]
                       else Inl (PyExc BaseOnly []))) ?frm
     = (Inr \<lparr>status = 200, body = Text (lit ''seen''), mimetype = None\<rparr>,
        [Invoke [(lit ''input'', PStr (lit ''What is a migraine?''))]])"
    unfolding s sx .
  from t have "\<forall>c l r l' r' frm'.
             ?m = l @ c @ r \<and> map_of frm' (lit ''msg'') = Some (l' @ c @ r')
             \<and> list_all isspace l \<and> list_all isspace r
             \<and> list_all isspace l' \<and> list_all isspace r' \<longrightarrow>
             chat (Some ?echo) frm' = chat (Some ?echo) ?frm"
    by (elim conjE)
  then have "?m = lit ''  '' @ lit ''What is a migraine?'' @ lit '' ''
      \<and> map_of ?frm' (lit ''msg'') = Some ([0x09] @ lit ''What is a migraine?'' @ [0x0A])
      \<and> list_all isspace (lit ''  '') \<and> list_all isspace (lit '' '')
      \<and> list_all isspace [0x09] \<and> list_all isspace [0x0A] \<longrightarrow>
      chat (Some ?echo) ?frm' = chat (Some ?echo) ?frm"
    by blast
  with pads have second: "chat (Some ?echo) ?frm' = chat (Some ?echo) ?frm"
    by (rule rev_mp)
  from first second show ?thesis by (rule conjI)
qed




section \<open>Start-up and the other routes\<close>




text \<open>
  Claim C6. The health handler returns status 200 and the JSON object
  \<open>{"status": "ok"}\<close> with an empty trace, whatever the module globals are and
  whatever the form holds, and the client receives it as \<open>application/json\<close>; and on
  a process that started with both variables set, a GET to \<open>/health\<close> reaches that
  handler, whatever the external services would answer.
\<close>

theorem health_always_ok:
  "run_handler Health g chat_html frm
     = (Inr \<lparr>status = 200, body = Json [(lit ''status'', lit ''ok'')], mimetype = None\<rparr>, [])
   \<and> http_reply (run_handler Health g chat_html frm)
     = (Inr \<lparr>http_status = 200, http_body = Json [(lit ''status'', lit ''ok'')],
              http_mimetype = lit ''application/json''\<rparr>, [])
   \<and> (\<forall>env is_main emb system_prompt p k world.
         env (lit ''PINECONE_API_KEY'') = Some p \<and> \<not> list_all isspace p
         \<and> env (lit ''OPENAI_API_KEY'') = Some k \<and> \<not> list_all isspace k \<longrightarrow>
         snd (serve (startup env is_main (Inr emb) system_prompt) world chat_html
                \<lparr>req_method = GET, req_path = lit ''/health'', req_form = frm\<rparr>)
           = (Inr \<lparr>status = 200, body = Json [(lit ''status'', lit ''ok'')], mimetype = None\<rparr>,
              []))"
proof (intro conjI allI impI)
  show h: "run_handler Health g chat_html frm
     = (Inr \<lparr>status = 200, body = Json [(lit ''status'', lit ''ok'')], mimetype = None\<rparr>, [])"
    for g
    by (simp add: run_handler_def health_def)
  show "http_reply (run_handler Health g chat_html frm)
     = (Inr \<lparr>http_status = 200, http_body = Json [(lit ''status'', lit ''ok'')],
              http_mimetype = lit ''application/json''\<rparr>, [])"
    by (simp add: h http_reply_def)
  fix env :: environ and is_main emb system_prompt p k world
  assume c: "env (lit ''PINECONE_API_KEY'') = Some p \<and> \<not> list_all isspace p
         \<and> env (lit ''OPENAI_API_KEY'') = Some k \<and> \<not> list_all isspace k"
  then have "routes (startup env is_main (Inr emb) system_prompt) =
      [\<lparr>rule = lit ''/'', methods = [GET], endpoint = Index\<rparr>,
       \<lparr>rule = lit ''/get'', methods = [POST], endpoint = Chat\<rparr>,
       \<lparr>rule = lit ''/health'', methods = [GET], endpoint = Health\<rparr>]"
    by (simp add: startup_configured)
  then show "snd (serve (startup env is_main (Inr emb) system_prompt) world chat_html
                \<lparr>req_method = GET, req_path = lit ''/health'', req_form = frm\<rparr>)
           = (Inr \<lparr>status = 200, body = Json [(lit ''status'', lit ''ok'')], mimetype = None\<rparr>,
              [])"
    by (simp add: serve_def dispatch_health h)
qed

theorem health_always_ok_witness:
  "run_handler Health
       \<lparr>g_rag_chain = Some (\<lambda>arg. Inl (PyExc OtherException (lit ''connection refused''))),
        g_e = None\<rparr>
       (lit ''<html></html>'') [(lit ''msg'', lit ''hi'')]
     = (Inr \<lparr>status = 200, body = Json [(lit ''status'', lit ''ok'')], mimetype = None\<rparr>, [])
   \<and> snd (serve (startup [lit ''PINECONE_API_KEY'' \<mapsto> lit ''pc-1'',
                           lit ''OPENAI_API_KEY'' \<mapsto> lit ''sk-1'']
                    True (Inr ()) (lit ''Answer briefly.''))
              (\<lambda>rag arg. Inl (PyExc OtherException (lit ''connection refused'')))
              (lit ''<html></html>'')
              \<lparr>req_method = GET, req_path = lit ''/health'', req_form = [(lit ''msg'', lit ''hi'')]\<rparr>)
       = (Inr \<lparr>status = 200, body = Json [(lit ''status'', lit ''ok'')], mimetype = None\<rparr>, [])"
proof -
  let ?env = "[lit ''PINECONE_API_KEY'' \<mapsto> lit ''pc-1'', lit ''OPENAI_API_KEY'' \<mapsto> lit ''sk-1''] :: environ"
  let ?down = "\<lambda>arg :: pydict. Inl (PyExc OtherException (lit ''connection refused'')) :: pyexc + pydict"
  let ?g = "\<lparr>g_rag_chain = Some ?down, g_e = None\<rparr>"
  have configured: "?env (lit ''PINECONE_API_KEY'') = Some (lit ''pc-1'')
      \<and> \<not> list_all isspace (lit ''pc-1'')
      \<and> ?env (lit ''OPENAI_API_KEY'') = Some (lit ''sk-1'')
      \<and> \<not> list_all isspace (lit ''sk-1'')"
    by (simp add: lit_def isspace_def whitespace_def)
  note h = health_always_ok [where g = ?g and chat_html = "lit ''<html></html>''"
      and frm = "[(lit ''msg'', lit ''hi'')]"]
  from h have a: "run_handler Health ?g (lit ''<html></html>'') [(lit ''msg'', lit ''hi'')]
     = (Inr \<lparr>status = 200, body = Json [(lit ''status'', lit ''ok'')], mimetype = None\<rparr>, [])"
    by (rule conjunct1)
  have b: "snd (serve (startup ?env True (Inr ()) (lit ''Answer briefly.'')) (\<lambda>rag. ?down)
              (lit ''<html></html>'')
              \<lparr>req_method = GET, req_path = lit ''/health'', req_form = [(lit ''msg'', lit ''hi'')]\<rparr>)
       = (Inr \<lparr>status = 200, body = Json [(lit ''status'', lit ''ok'')], mimetype = None\<rparr>, [])"
    using h [THEN conjunct2, THEN conjunct2, THEN spec, of ?env, THEN spec, of True,
        THEN spec, of "()", THEN spec, of "lit ''Answer briefly.''", THEN spec, of "lit ''pc-1''",
        THEN spec, of "lit ''sk-1''", THEN spec, of "\<lambda>rag. ?down"] configured
    by (rule mp)
  from a b show ?thesis by (rule conjI)
qed

text \<open>
  Claim C8. On a process that started with both variables set and an embedding object,
  the chain's retriever is bound to the index \<open>medicalai-chatbot\<close>, searches by
  similarity and asks for \<open>k = 3\<close> results; and after any sequence of requests,
  whatever the external services answer, the retriever is that same one.
\<close>

theorem retriever_is_fixed:
  assumes "env (lit ''PINECONE_API_KEY'') = Some p" and "\<not> list_all isspace p"
    and "env (lit ''OPENAI_API_KEY'') = Some k" and "\<not> list_all isspace k"
    and st: "st = startup env is_main (Inr emb) system_prompt"
  shows "map_option rag_retriever (rag_chain st)
           = Some \<lparr>vectorstore = \<lparr>index_name = lit ''medicalai-chatbot'', embedding = emb\<rparr>,
                   search_type = lit ''similarity'', search_kwargs = [(lit ''k'', 3)]\<rparr>
       \<and> (\<forall>reqs. map_option rag_retriever (rag_chain (fst (serve_all st chat_html reqs)))
             = Some \<lparr>vectorstore = \<lparr>index_name = lit ''medicalai-chatbot'', embedding = emb\<rparr>,
                     search_type = lit ''similarity'', search_kwargs = [(lit ''k'', 3)]\<rparr>)"
proof -
  have "map_option rag_retriever (rag_chain st)
           = Some \<lparr>vectorstore = \<lparr>index_name = lit ''medicalai-chatbot'', embedding = emb\<rparr>,
                   search_type = lit ''similarity'', search_kwargs = [(lit ''k'', 3)]\<rparr>"
    unfolding st by (simp add: startup_configured [where env = env, OF assms(1-4)])
  then show ?thesis by (simp add: fst_serve_all)
qed

theorem retriever_is_fixed_witness:
  "map_option rag_retriever
     (rag_chain (fst (serve_all
        (startup [lit ''PINECONE_API_KEY'' \<mapsto> lit ''pc-1'', lit ''OPENAI_API_KEY'' \<mapsto> lit ''sk-1'']
           True (Inr ()) (lit ''Answer briefly.''))
        (lit ''<html></html>'')
        [(\<lambda>rag arg. Inr [(lit ''answer'', PStr (lit ''Rest.''))],
          \<lparr>req_method = POST, req_path = lit ''/get'', req_form = [(lit ''msg'', lit ''hi'')]\<rparr>),
         (\<lambda>rag arg. Inl (PyExc OtherException (lit ''connection refused'')),
          \<lparr>req_method = POST, req_path = lit ''/get'', req_form = [(lit ''msg'', lit ''hi'')]\<rparr>),
         (\<lambda>rag arg. Inr [],
          \<lparr>req_method = GET, req_path = lit ''/health'', req_form = []\<rparr>)])))
   = Some \<lparr>vectorstore = \<lparr>index_name = lit ''medicalai-chatbot'', embedding = ()\<rparr>,
           search_type = lit ''similarity'', search_kwargs = [(lit ''k'', 3)]\<rparr>"
proof -
  let ?env = "[lit ''PINECONE_API_KEY'' \<mapsto> lit ''pc-1'', lit ''OPENAI_API_KEY'' \<mapsto> lit ''sk-1''] :: environ"
  have p: "?env (lit ''PINECONE_API_KEY'') = Some (lit ''pc-1'')"
    by (simp add: lit_def)
  have np: "\<not> list_all isspace (lit ''pc-1'')"
    by (simp add: lit_def isspace_def whitespace_def)
  have k: "?env (lit ''OPENAI_API_KEY'') = Some (lit ''sk-1'')"
    by (simp add: lit_def)
  have nk: "\<not> list_all isspace (lit ''sk-1'')"
    by (simp add: lit_def isspace_def whitespace_def)
  from retriever_is_fixed [where env = ?env and is_main = True and emb = "()"
      and system_prompt = "lit ''Answer briefly.''" and chat_html = "lit ''<html></html>''",
      OF p np k nk refl]
  show ?thesis by blast
qed

end
